theory Spec2Isabelle
  imports Complex_Main "HOL-Library.Sublist"
begin

section \<open>Data model (lines 18--36 of \<open>dbj_main.py\<close>)\<close>

text \<open>
  The three dataclasses of the source.  Fields are typed as the annotations of the source
  type them; an \<open>Optional\<close> field is an \<open>option\<close>, \<open>None\<close> being Python's \<open>None\<close>.
  The field \<open>prewarm_workspaces\<close> of \<open>GeneralCfg\<close> is called \<open>prewarm_workspaces_cfg\<close>
  here, since the function \<open>prewarm_workspaces\<close> of the source keeps its name below.
\<close>

record AppRule =
  name :: string
  cmd :: string
  class_regex :: string
  workspace :: int
  monitor :: "string option"
  timeout_s :: "int option"

record GeneralCfg =
  prewarm_workspaces_cfg :: "int list"
  poll_interval_ms :: int
  default_timeout_s :: int

record Config =
  general :: GeneralCfg
  apps :: "AppRule list"

text \<open>
  The exceptions that the modelled code can raise: \<open>re.error\<close> from \<open>re.compile\<close>
  (the specification calls it \<open>InvalidPattern\<close>), \<open>ValueError\<close> from \<open>time.sleep\<close> with a
  negative argument, \<open>KeyError\<close> from a subscript on a missing key,
  \<open>TOMLDecodeError\<close> from \<open>tomllib.load\<close> and \<open>FileNotFoundError\<close> from \<open>open\<close>.
\<close>

datatype error = Re_error | ValueError | KeyError string | TOMLDecodeError | FileNotFoundError

section \<open>The outside world\<close>

text \<open>
  One entry of the list that \<open>hyprctl -j clients\<close> prints.  Only the two keys that the
  source reads are kept; \<open>None\<close> stands for a key that is missing (or \<open>null\<close>), which is
  what \<open>dict.get\<close> returns for it.
\<close>

record window =
  wclass :: "string option"
  address :: "string option"

text \<open>
  Everything the program does to its environment, in the order it does it:
  \<open>Run c\<close> is a call \<open>run(c)\<close> (a \<open>hyprctl\<close> process), \<open>Spawn c\<close> a call
  \<open>subprocess.Popen(c, shell=True)\<close>, \<open>Sleep d\<close> a call \<open>time.sleep(d)\<close> that returned,
  \<open>Print s\<close> a line on standard output and \<open>Warn s\<close> a line on standard error.
\<close>

datatype event = Run string | Spawn string | Sleep rat | Print string | Warn string

text \<open>
  The world is a virtual clock (\<open>now\<close> is what \<open>time.time()\<close> returns, in seconds, an
  exact rational instead of a float), the window lists that the coming calls of
  \<open>hyprctl -j clients\<close> will report (after the last one the window system reports nothing),
  and the trace of events so far.  The clock advances only in \<open>time.sleep\<close>.  External
  commands are taken to succeed, as the source takes them to: it never looks at an exit
  status.
\<close>

record world =
  now :: rat
  pending :: "window list list"
  trace :: "event list"

definition emit :: "event \<Rightarrow> world \<Rightarrow> world" where
  "emit e w = w\<lparr>trace := trace w @ [e]\<rparr>"

text \<open>\<open>def run(cmd)\<close>, line 38: the command string is recorded.\<close>

definition run :: "string \<Rightarrow> world \<Rightarrow> world" where
  "run c w = emit (Run c) w"

text \<open>\<open>def dispatch(cmd)\<close>, line 42.\<close>

definition dispatch :: "string \<Rightarrow> world \<Rightarrow> world" where
  "dispatch c w = run (''hyprctl dispatch '' @ c) w"

text \<open>
  \<open>def hypr_clients()\<close>, line 44: one \<open>hyprctl -j clients\<close> call; its parsed output is the
  next pending window list, or the empty list when nothing is reported.
\<close>

definition hypr_clients :: "world \<Rightarrow> window list \<times> world" where
  "hypr_clients w =
     (case pending w of
        [] \<Rightarrow> ([], run ''hyprctl -j clients'' w)
      | s # ss \<Rightarrow> (s, run ''hyprctl -j clients'' (w\<lparr>pending := ss\<rparr>)))"

text \<open>\<open>str(i)\<close> of a Python integer, as the f-strings of the source format it.\<close>

definition digit_char :: "nat \<Rightarrow> char" where
  "digit_char d = ''0123456789'' ! d"

fun digits :: "nat \<Rightarrow> string" where
  "digits n = (if n < 10 then [digit_char n] else digits (n div 10) @ [digit_char (n mod 10)])"

declare digits.simps [simp del]

definition str_int :: "int \<Rightarrow> string" where
  "str_int i = (if i < 0 then CHR ''-'' # digits (nat (- i)) else digits (nat i))"

text \<open>\<open>def move_to_workspace(addr, ws)\<close>, line 47.\<close>

definition move_to_workspace :: "string \<Rightarrow> int \<Rightarrow> world \<Rightarrow> world" where
  "move_to_workspace addr ws w =
     dispatch (''movetoworkspace '' @ str_int ws @ '' address:'' @ addr) w"

text \<open>\<open>def move_to_monitor(addr, monitor)\<close>, line 50.\<close>

definition move_to_monitor :: "string \<Rightarrow> string \<Rightarrow> world \<Rightarrow> world" where
  "move_to_monitor addr mon w =
     dispatch (''movetomonitor '' @ mon @ '' address:'' @ addr)
       (dispatch (''focuswindow address:'' @ addr) w)"

text \<open>\<open>def spawn(cmd)\<close>, line 54.\<close>

definition spawn :: "string \<Rightarrow> world \<Rightarrow> world" where
  "spawn c w = emit (Spawn c) w"

text \<open>
  \<open>time.sleep(poll_ms / 1000.0)\<close>: Python raises \<open>ValueError\<close> for a negative length;
  otherwise the clock advances by that length.
\<close>

definition sleep_ms :: "int \<Rightarrow> world \<Rightarrow> error + world" where
  "sleep_ms poll_ms w =
     (if poll_ms < 0 then Inl ValueError
      else Inr (emit (Sleep (of_int poll_ms / 1000)) (w\<lparr>now := now w + of_int poll_ms / 1000\<rparr>)))"

section \<open>The regular-expression library\<close>

text \<open>
  Python's \<open>re\<close> module is not part of the repository.  The program uses two things of it:
  \<open>re.compile\<close>, which raises \<open>re.error\<close> or returns a pattern object, and the truth
  value of \<open>pat.search(s)\<close>.  The model takes the library as a parameter: a function from
  the pattern text to \<open>None\<close> (\<open>re.error\<close>) or to the search predicate of the compiled
  pattern.
\<close>

type_synonym re_compile = "string \<Rightarrow> (string \<Rightarrow> bool) option"

section \<open>WindowWaiter: \<open>wait_for_window\<close> (lines 80--88)\<close>

text \<open>\<open>c.get("class", "") or ""\<close>: a missing, null or empty class is the empty string.\<close>

definition class_or_empty :: "window \<Rightarrow> string" where
  "class_or_empty c = (case wclass c of None \<Rightarrow> [] | Some s \<Rightarrow> s)"

text \<open>
  The \<open>for\<close> loop of lines 84--86 over one window list.  \<open>None\<close>: the loop ran to its end;
  \<open>Some a\<close>: it returned \<open>c.get("address")\<close> (which is \<open>None\<close> for a window without
  address) at the first window whose class the pattern finds a match in.
\<close>

fun scan :: "(string \<Rightarrow> bool) \<Rightarrow> window list \<Rightarrow> string option option" where
  "scan pat [] = None"
| "scan pat (c # cs) = (if pat (class_or_empty c) then Some (address c) else scan pat cs)"

text \<open>
  The \<open>while\<close> loop of lines 83--87, \<open>t0\<close> being the clock value read at line 82.  The
  loop need not end (a poll interval of 0 never advances the virtual clock), so the
  function is partial: \<open>None\<close> is a run that never returns.  A returned pair holds the
  result (\<open>Inl\<close> an exception; \<open>Inr None\<close> is Python's \<open>None\<close>) and the world at that
  moment.
\<close>

partial_function (option) wait_loop ::
  "(string \<Rightarrow> bool) \<Rightarrow> rat \<Rightarrow> int \<Rightarrow> int \<Rightarrow> world \<Rightarrow> ((error + string option) \<times> world) option"
where
  "wait_loop pat t0 timeout poll_ms w =
     (if now w - t0 < of_int timeout then
        (case hypr_clients w of
           (cs, w1) \<Rightarrow>
             (case scan pat cs of
                Some a \<Rightarrow> Some (Inr a, w1)
              | None \<Rightarrow>
                  (case sleep_ms poll_ms w1 of
                     Inl e \<Rightarrow> Some (Inl e, w1)
                   | Inr w2 \<Rightarrow> wait_loop pat t0 timeout poll_ms w2)))
      else Some (Inr None, w))"

text \<open>
  \<open>def wait_for_window(class_regex, timeout_s, poll_ms)\<close>.  The parameters \<open>class_regex\<close>
  and \<open>timeout_s\<close> are written \<open>class_regex_v\<close> and \<open>timeout\<close>, the plain names being
  the record fields above.  The pattern is compiled first; the clock is read after that.
\<close>

definition wait_for_window ::
  "re_compile \<Rightarrow> string \<Rightarrow> int \<Rightarrow> int \<Rightarrow> world \<Rightarrow> ((error + string option) \<times> world) option"
where
  "wait_for_window re class_regex_v timeout poll_ms w =
     (case re class_regex_v of
        None \<Rightarrow> Some (Inl Re_error, w)
      | Some pat \<Rightarrow> wait_loop pat (now w) timeout poll_ms w)"


section \<open>Orchestrator: \<open>prewarm_workspaces\<close> and \<open>orchestrate\<close> (lines 90--116)\<close>

text \<open>\<open>sep.join(parts)\<close>.\<close>

fun join :: "string \<Rightarrow> string list \<Rightarrow> string" where
  "join sep [] = []"
| "join sep [p] = p"
| "join sep (p # q # ps) = p @ sep @ join sep (q # ps)"

text \<open>Line 93: one part for each workspace, in the order of the list.\<close>

definition batch_parts :: "int list \<Rightarrow> string list" where
  "batch_parts ws_list = map (\<lambda>ws. ''dispatch workspace '' @ str_int ws) ws_list"

definition batch_cmd :: "int list \<Rightarrow> string" where
  "batch_cmd ws_list =
     ''hyprctl --batch '' @ [CHR 0x27] @ join ''; '' (batch_parts ws_list) @ [CHR 0x27]"

definition prewarm_workspaces :: "int list \<Rightarrow> world \<Rightarrow> world" where
  "prewarm_workspaces ws_list w = (if ws_list = [] then w else run (batch_cmd ws_list) w)"

text \<open>
  The three messages of the loop body.  \<open>if rule.monitor\<close> is Python truthiness: a monitor
  that is \<open>None\<close> or the empty string is no monitor.
\<close>

definition launch_msg :: "AppRule \<Rightarrow> string" where
  "launch_msg rule =
     ''[dbj] launching: '' @ name rule @ '' -> ws'' @ str_int (workspace rule) @
     (case monitor rule of
        None \<Rightarrow> []
      | Some m \<Rightarrow> if m = [] then [] else '' @ '' @ m)"

definition timeout_msg :: "AppRule \<Rightarrow> string" where
  "timeout_msg rule =
     ''[dbj][WARN] timeout esperando ventana de '' @ [CHR 0x27] @ name rule @ [CHR 0x27] @
     '' (regex='' @ class_regex rule @ '')''"

definition found_msg :: "AppRule \<Rightarrow> string \<Rightarrow> string" where
  "found_msg rule addr =
     ''[dbj] found window '' @ addr @ '' for '' @ name rule @ '', moving to ws'' @
     str_int (workspace rule)"

text \<open>
  Line 104, \<open>rule.timeout_s or cfg.general.default_timeout_s\<close>: Python's \<open>or\<close> yields its
  left operand when that is truthy, and \<open>None\<close> and \<open>0\<close> are both falsy.
\<close>

definition effective_timeout :: "AppRule \<Rightarrow> GeneralCfg \<Rightarrow> int" where
  "effective_timeout rule g =
     (case timeout_s rule of
        None \<Rightarrow> default_timeout_s g
      | Some t \<Rightarrow> if t = 0 then default_timeout_s g else t)"

text \<open>Lines 110--114, reached with a truthy address.\<close>

definition place :: "bool \<Rightarrow> AppRule \<Rightarrow> string \<Rightarrow> world \<Rightarrow> world" where
  "place dry_run rule addr w =
     (let w1 = emit (Print (found_msg rule addr)) w in
      if dry_run then w1
      else
        (let w2 = move_to_workspace addr (workspace rule) w1 in
         case monitor rule of
           None \<Rightarrow> w2
         | Some m \<Rightarrow> if m = [] then w2 else move_to_monitor addr m w2))"

text \<open>Lines 100--102: the log line, and the launch unless this is a dry run.\<close>

definition launch :: "bool \<Rightarrow> AppRule \<Rightarrow> world \<Rightarrow> world" where
  "launch dry_run rule w =
     (let w1 = emit (Print (launch_msg rule)) w in
      if dry_run then w1 else spawn (cmd rule) w1)"

text \<open>
  One iteration of the \<open>for rule in cfg.apps\<close> loop, lines 100--114.  \<open>if not addr\<close> is
  truthiness again: \<open>None\<close> and the empty string both take the warning branch.
\<close>

definition process_rule ::
  "re_compile \<Rightarrow> GeneralCfg \<Rightarrow> bool \<Rightarrow> AppRule \<Rightarrow> world \<Rightarrow> ((error + unit) \<times> world) option"
where
  "process_rule re g dry_run rule w =
     (case wait_for_window re (class_regex rule) (effective_timeout rule g)
             (poll_interval_ms g) (launch dry_run rule w) of
        None \<Rightarrow> None
      | Some (Inl e, w3) \<Rightarrow> Some (Inl e, w3)
      | Some (Inr None, w3) \<Rightarrow> Some (Inr (), emit (Warn (timeout_msg rule)) w3)
      | Some (Inr (Some addr), w3) \<Rightarrow>
          if addr = [] then Some (Inr (), emit (Warn (timeout_msg rule)) w3)
          else Some (Inr (), place dry_run rule addr w3))"

text \<open>The \<open>for\<close> loop: an exception of one iteration ends the loop and is the result.\<close>

fun run_rules ::
  "re_compile \<Rightarrow> GeneralCfg \<Rightarrow> bool \<Rightarrow> AppRule list \<Rightarrow> world \<Rightarrow> ((error + unit) \<times> world) option"
where
  "run_rules re g dry_run [] w = Some (Inr (), w)"
| "run_rules re g dry_run (rule # rules) w =
     (case process_rule re g dry_run rule w of
        None \<Rightarrow> None
      | Some (Inl e, w1) \<Rightarrow> Some (Inl e, w1)
      | Some (Inr u, w1) \<Rightarrow> run_rules re g dry_run rules w1)"

text \<open>\<open>def orchestrate(cfg, dry_run)\<close>: the returned status is \<open>Inr 0\<close>.\<close>

definition orchestrate ::
  "re_compile \<Rightarrow> Config \<Rightarrow> bool \<Rightarrow> world \<Rightarrow> ((error + int) \<times> world) option"
where
  "orchestrate re cfg dry_run w =
     (case run_rules re (general cfg) dry_run (apps cfg)
             (prewarm_workspaces (prewarm_workspaces_cfg (general cfg)) w) of
        None \<Rightarrow> None
      | Some (Inl e, w1) \<Rightarrow> Some (Inl e, w1)
      | Some (Inr u, w1) \<Rightarrow> Some (Inr 0, w1))"

section \<open>Configuration loading and \<open>main\<close> (lines 57--78 and 124--132)\<close>

text \<open>
  What \<open>tomllib.load\<close> returns, for documents whose values have the types that the
  dataclasses declare: each key is absent (\<open>None\<close>) or holds a value of that type, so that
  \<open>int(...)\<close> of lines 64, 65 and 74 is the identity.  Documents with values of other types
  are outside the model.
\<close>

record raw_general =
  g_prewarm_workspaces :: "int list option"
  g_poll_interval_ms :: "int option"
  g_default_timeout_s :: "int option"

record raw_app =
  a_name :: "string option"
  a_cmd :: "string option"
  a_class_regex :: "string option"
  a_workspace :: "int option"
  a_monitor :: "string option"
  a_timeout_s :: "int option"

record raw_doc =
  d_general :: "raw_general option"
  d_app :: "raw_app list option"

text \<open>The file at the configuration path: absent, not valid TOML, or a document.\<close>

datatype config_file = No_file | Bad_toml | Toml raw_doc

text \<open>\<open>general.get(key, default)\<close>.\<close>

definition get_or :: "'a option \<Rightarrow> 'a \<Rightarrow> 'a" where
  "get_or v d = (case v of None \<Rightarrow> d | Some x \<Rightarrow> x)"

text \<open>Lines 61--66; a document without \<open>[general]\<close> table is read as an empty table.\<close>

definition load_general :: "raw_general option \<Rightarrow> GeneralCfg" where
  "load_general g =
     (let general_v = get_or g \<lparr>g_prewarm_workspaces = None, g_poll_interval_ms = None,
                                 g_default_timeout_s = None\<rparr>
      in \<lparr>prewarm_workspaces_cfg = get_or (g_prewarm_workspaces general_v) [],
          poll_interval_ms = get_or (g_poll_interval_ms general_v) 200,
          default_timeout_s = get_or (g_default_timeout_s general_v) 20\<rparr>)"

text \<open>
  Lines 70--77: the subscripts \<open>app["name"]\<close>, \<open>app["cmd"]\<close>, \<open>app["class_regex"]\<close> and
  \<open>app["workspace"]\<close> are evaluated in this order and the first missing key raises.
\<close>

definition load_app :: "raw_app \<Rightarrow> error + AppRule" where
  "load_app app =
     (case a_name app of
        None \<Rightarrow> Inl (KeyError ''name'')
      | Some n \<Rightarrow>
     (case a_cmd app of
        None \<Rightarrow> Inl (KeyError ''cmd'')
      | Some c \<Rightarrow>
     (case a_class_regex app of
        None \<Rightarrow> Inl (KeyError ''class_regex'')
      | Some r \<Rightarrow>
     (case a_workspace app of
        None \<Rightarrow> Inl (KeyError ''workspace'')
      | Some ws \<Rightarrow>
          Inr \<lparr>name = n, cmd = c, class_regex = r, workspace = ws,
               monitor = a_monitor app, timeout_s = a_timeout_s app\<rparr>))))"

fun load_apps :: "raw_app list \<Rightarrow> error + AppRule list" where
  "load_apps [] = Inr []"
| "load_apps (app # rest) =
     (case load_app app of
        Inl e \<Rightarrow> Inl e
      | Inr rule \<Rightarrow> (case load_apps rest of Inl e \<Rightarrow> Inl e | Inr rules \<Rightarrow> Inr (rule # rules)))"

definition load_config :: "config_file \<Rightarrow> error + Config" where
  "load_config f =
     (case f of
        No_file \<Rightarrow> Inl FileNotFoundError
      | Bad_toml \<Rightarrow> Inl TOMLDecodeError
      | Toml data \<Rightarrow>
          (case load_apps (get_or (d_app data) []) of
             Inl e \<Rightarrow> Inl e
           | Inr rules \<Rightarrow> Inr \<lparr>general = load_general (d_general data), apps = rules\<rparr>))"

text \<open>
  \<open>def main()\<close>: the process ends with \<open>sys.exit(n)\<close> or with an exception that nothing
  catches.
\<close>

datatype outcome = Exit int | Uncaught error

definition main :: "re_compile \<Rightarrow> string \<Rightarrow> config_file \<Rightarrow> bool \<Rightarrow> world \<Rightarrow> (outcome \<times> world) option" where
  "main re path f dry_run w =
     (if f = No_file then Some (Exit 2, emit (Warn (''ERROR: No existe config: '' @ path)) w)
      else
        (case load_config f of
           Inl e \<Rightarrow> Some (Uncaught e, w)
         | Inr cfg \<Rightarrow>
             (case orchestrate re cfg dry_run w of
                None \<Rightarrow> None
              | Some (Inl e, w1) \<Rightarrow> Some (Uncaught e, w1)
              | Some (Inr rc, w1) \<Rightarrow> Some (Exit rc, w1))))"

section \<open>A fragment of the regular-expression library, for closed examples\<close>

text \<open>
  A model of Python's \<open>re\<close> on the patterns that consist of ordinary characters, \<open>.\<close>
  (any character but a newline) and the postfix \<open>*\<close>.  A \<open>*\<close> with nothing before it and a
  \<open>*\<close> right after a \<open>*\<close> are the library's errors \<open>nothing to repeat\<close> and
  \<open>multiple repeat\<close>.  Every other special character of the library's syntax makes the
  pattern \<open>Unmodelled\<close>: the fragment says nothing about it.
\<close>

datatype re_atom = Lit char | Dot

datatype re_item = Once re_atom | Many re_atom

datatype re_parsed = Parsed "re_item list" | Malformed | Unmodelled

definition re_special :: "char \<Rightarrow> bool" where
  "re_special c = (c \<in> set (CHR 0x5C # ''^$+?{}[]|()''))"

definition re_atom_of :: "char \<Rightarrow> re_atom" where
  "re_atom_of c = (if c = CHR ''.'' then Dot else Lit c)"

fun re_cons :: "re_item \<Rightarrow> re_parsed \<Rightarrow> re_parsed" where
  "re_cons i (Parsed r) = Parsed (i # r)"
| "re_cons i Malformed = Malformed"
| "re_cons i Unmodelled = Unmodelled"

fun re_parse :: "string \<Rightarrow> re_parsed" where
  "re_parse [] = Parsed []"
| "re_parse (c # cs) =
     (if c = CHR ''*'' then Malformed
      else if re_special c then Unmodelled
      else
        (case cs of
           [] \<Rightarrow> Parsed [Once (re_atom_of c)]
         | d # ds \<Rightarrow>
             if d = CHR ''*'' then re_cons (Many (re_atom_of c)) (re_parse ds)
             else re_cons (Once (re_atom_of c)) (re_parse cs)))"

fun atom_ok :: "re_atom \<Rightarrow> char \<Rightarrow> bool" where
  "atom_ok (Lit c) x = (x = c)"
| "atom_ok Dot x = (x \<noteq> CHR 0x0A)"

text \<open>\<open>re_prefix r s\<close>: the items \<open>r\<close> match a prefix of \<open>s\<close> (\<open>pat.match\<close>).\<close>

fun re_prefix :: "re_item list \<Rightarrow> string \<Rightarrow> bool" where
  "re_prefix [] s = True"
| "re_prefix (Once a # r) [] = False"
| "re_prefix (Once a # r) (x # xs) = (atom_ok a x \<and> re_prefix r xs)"
| "re_prefix (Many a # r) [] = re_prefix r []"
| "re_prefix (Many a # r) (x # xs) =
     (re_prefix r (x # xs) \<or> (atom_ok a x \<and> re_prefix (Many a # r) xs))"

text \<open>\<open>re_search r s\<close>: the items match somewhere in \<open>s\<close> (\<open>pat.search\<close>).\<close>

fun re_search :: "re_item list \<Rightarrow> string \<Rightarrow> bool" where
  "re_search r [] = re_prefix r []"
| "re_search r (x # xs) = (re_prefix r (x # xs) \<or> re_search r xs)"

text \<open>
  The fragment as a library for the closed examples below.  It answers \<open>None\<close> for an
  unmodelled pattern as well; no example uses it on one.
\<close>

definition re_fragment :: re_compile where
  "re_fragment p =
     (case re_parse p of
        Parsed r \<Rightarrow> Some (re_search r)
      | Malformed \<Rightarrow> None
      | Unmodelled \<Rightarrow> None)"


section \<open>Reading the trace\<close>











section \<open>Lemmas about the model\<close>

subsection \<open>One step of the polling loop\<close>

lemma wait_loop_expired:
  "\<not> now w - t0 < of_int timeout \<Longrightarrow> wait_loop pat t0 timeout poll_ms w = Some (Inr None, w)"
  by (subst wait_loop.simps) simp




lemma wait_loop_step:
  "now w - t0 < of_int timeout \<Longrightarrow>
   wait_loop pat t0 timeout poll_ms w =
     (case scan pat (fst (hypr_clients w)) of
        Some a \<Rightarrow> Some (Inr a, snd (hypr_clients w))
      | None \<Rightarrow>
          (case sleep_ms poll_ms (snd (hypr_clients w)) of
             Inl e \<Rightarrow> Some (Inl e, snd (hypr_clients w))
           | Inr w2 \<Rightarrow> wait_loop pat t0 timeout poll_ms w2))"
  by (subst wait_loop.simps) (simp add: case_prod_beta)

subsection \<open>Traces only grow\<close>














subsection \<open>The polling loop returns when the poll interval is positive\<close>



subsection \<open>The events of the rule loop\<close>














subsection \<open>The scan of one window list\<close>




subsection \<open>Launches and the prewarm command in the trace\<close>














subsection \<open>The effective timeout\<close>

lemma effective_timeout_absent:
  "timeout_s rule = None \<Longrightarrow> effective_timeout rule g = default_timeout_s g"
  by (simp add: effective_timeout_def)

lemma effective_timeout_present:
  "timeout_s rule = Some t \<Longrightarrow> t \<noteq> 0 \<Longrightarrow> effective_timeout rule g = t"
  by (simp add: effective_timeout_def)

lemma effective_timeout_zero:
  "timeout_s rule = Some 0 \<Longrightarrow> effective_timeout rule g = default_timeout_s g"
  by (simp add: effective_timeout_def)

subsection \<open>The pattern fragment\<close>



subsection \<open>Evaluation of closed examples\<close>

text \<open>
  The equations that unfold the model on a concrete input.  The polling loop is unfolded by
  \<open>wait_loop_step\<close> and \<open>wait_loop_expired\<close>, whose conditions decide each round.
\<close>

lemmas eval_simps =
  orchestrate_def process_rule_def wait_for_window_def launch_def place_def
  prewarm_workspaces_def batch_cmd_def batch_parts_def
  launch_msg_def timeout_msg_def found_msg_def effective_timeout_def
  move_to_workspace_def move_to_monitor_def dispatch_def spawn_def run_def emit_def
  hypr_clients_def sleep_ms_def class_or_empty_def
  str_int_def digits.simps digit_char_def
  re_fragment_def re_special_def re_atom_of_def
  wait_loop_step wait_loop_expired
section \<open>The claims\<close>

subsection \<open>C1: the scan of a window list\<close>




subsection \<open>C2: a dry run\<close>




subsection \<open>C3: a timeout that is not positive\<close>



subsection \<open>C4: the effective timeout\<close>

text \<open>
  Claim C4 says that a rule's own timeout is used whenever the field is present, also when
  it is \<open>0\<close>.  Line 104 computes \<open>rule.timeout_s or cfg.general.default_timeout_s\<close>, and
  \<open>0\<close> is falsy: for a rule with \<open>timeout_s = 0\<close> and a general default of 20 seconds the
  effective timeout is 20, not 0.  For an absent field and for every present value other
  than \<open>0\<close> the code does what the claim says (\<open>effective_timeout_absent\<close>,
  \<open>effective_timeout_present\<close>).
\<close>

theorem effective_timeout_zero_override:
  "effective_timeout
     \<lparr>name = ''term'', cmd = ''xterm'', class_regex = ''xterm'', workspace = 2,
      monitor = None, timeout_s = Some 0\<rparr>
     \<lparr>prewarm_workspaces_cfg = [], poll_interval_ms = 200, default_timeout_s = 20\<rparr> = 20"
  by (simp add: effective_timeout_def)

subsection \<open>C5: timeouts do not fail the run\<close>




subsection \<open>C6: rules are processed in order\<close>



subsection \<open>C7: the prewarm command\<close>



subsection \<open>C8: a pattern that does not compile\<close>

text \<open>
  Claim C8.  When \<open>re.compile\<close> rejects the class pattern, \<open>wait_for_window\<close> ends with
  \<open>re.error\<close> (the specification's \<open>InvalidPattern\<close>) in the world it was called in: the
  error is raised at compilation, before the clock is read and before any poll or sleep.
  It is not turned into \<open>None\<close>: the rule's iteration and the whole rule loop end with the
  same error, right after the rule's launch step.
\<close>

theorem invalid_pattern_propagates:
  assumes "re (class_regex rule) = None"
  shows "wait_for_window re (class_regex rule) timeout poll_ms w = Some (Inl Re_error, w)
       \<and> process_rule re g dry_run rule w = Some (Inl Re_error, launch dry_run rule w)
       \<and> run_rules re g dry_run (rule # rules) w = Some (Inl Re_error, launch dry_run rule w)"
  using assms by (simp add: wait_for_window_def process_rule_def)

theorem invalid_pattern_propagates_witness:
  "wait_for_window re_fragment ''a**'' 20 200 \<lparr>now = 0, pending = [], trace = []\<rparr>
     = Some (Inl Re_error, \<lparr>now = 0, pending = [], trace = []\<rparr>)
   \<and> run_rules re_fragment
        \<lparr>prewarm_workspaces_cfg = [], poll_interval_ms = 200, default_timeout_s = 20\<rparr> True
        [\<lparr>name = ''bad'', cmd = ''true'', class_regex = ''a**'', workspace = 1,
          monitor = None, timeout_s = None\<rparr>]
        \<lparr>now = 0, pending = [], trace = []\<rparr>
     = Some (Inl Re_error,
          \<lparr>now = 0, pending = [], trace = [Print ''[dbj] launching: bad -> ws1'']\<rparr>)"
proof -
  let ?rule = "\<lparr>name = ''bad'', cmd = ''true'', class_regex = ''a**'', workspace = 1,
          monitor = None, timeout_s = None\<rparr>"
  have h: "re_fragment (class_regex ?rule) = None" by (simp add: re_fragment_def re_special_def)
  from invalid_pattern_propagates [of re_fragment ?rule 20 200 "\<lparr>now = 0, pending = [], trace = []\<rparr>"
      "\<lparr>prewarm_workspaces_cfg = [], poll_interval_ms = 200, default_timeout_s = 20\<rparr>" True "[]", OF h]
  show ?thesis
    by (simp add: launch_def launch_msg_def emit_def str_int_def digits.simps digit_char_def)
qed

subsection \<open>C9: a poll interval that is not positive\<close>

text \<open>
  Claim C9, as amended.  \<open>load_config\<close> does not validate the poll interval.  For every
  document whose application entries have their required keys, loading succeeds whatever
  the value of \<open>poll_interval_ms\<close> is; the configuration holds that value unchanged (200
  when the key or the whole table is absent), and \<open>main\<close> goes on to \<open>orchestrate\<close> with
  it.
\<close>

theorem load_config_keeps_poll_interval:
  assumes "load_apps (get_or (d_app data) []) = Inr rules"
  shows "\<exists>cfg. load_config (Toml data) = Inr cfg
           \<and> apps cfg = rules
           \<and> poll_interval_ms (general cfg) =
               (case d_general data of
                  None \<Rightarrow> 200
                | Some gen \<Rightarrow> get_or (g_poll_interval_ms gen) 200)
           \<and> main re path (Toml data) dry_run w =
               (case orchestrate re cfg dry_run w of
                  None \<Rightarrow> None
                | Some (Inl e, w1) \<Rightarrow> Some (Uncaught e, w1)
                | Some (Inr rc, w1) \<Rightarrow> Some (Exit rc, w1))"
  using assms
  by (auto simp: load_config_def load_general_def main_def get_or_def split: option.splits)

theorem load_config_keeps_poll_interval_witness:
  "main re_fragment ''config.toml''
     (Toml \<lparr>d_general = Some \<lparr>g_prewarm_workspaces = Some [1], g_poll_interval_ms = Some (- 5),
                               g_default_timeout_s = None\<rparr>,
            d_app = None\<rparr>)
     False \<lparr>now = 0, pending = [], trace = []\<rparr>
   = Some (Exit 0,
       \<lparr>now = 0, pending = [],
        trace = [Run (''hyprctl --batch '' @ [CHR 0x27] @ ''dispatch workspace 1'' @ [CHR 0x27])]\<rparr>)
   \<and> map_sum id (\<lambda>cfg. poll_interval_ms (general cfg))
       (load_config
         (Toml \<lparr>d_general = Some \<lparr>g_prewarm_workspaces = Some [1], g_poll_interval_ms = Some (- 5),
                                   g_default_timeout_s = None\<rparr>,
                d_app = None\<rparr>)) = Inr (- 5)"
proof -
  let ?data = "\<lparr>d_general = Some \<lparr>g_prewarm_workspaces = Some [1], g_poll_interval_ms = Some (- 5),
                               g_default_timeout_s = None\<rparr>,
            d_app = None\<rparr>"
  have h: "load_apps (get_or (d_app ?data) []) = Inr []" by (simp add: get_or_def)
  from load_config_keeps_poll_interval [of ?data "[]" re_fragment "''config.toml''" False
      "\<lparr>now = 0, pending = [], trace = []\<rparr>", OF h]
  obtain cfg where c: "load_config (Toml ?data) = Inr cfg" "apps cfg = []"
      "poll_interval_ms (general cfg) = - 5"
      "main re_fragment ''config.toml'' (Toml ?data) False \<lparr>now = 0, pending = [], trace = []\<rparr> =
               (case orchestrate re_fragment cfg False \<lparr>now = 0, pending = [], trace = []\<rparr> of
                  None \<Rightarrow> None
                | Some (Inl e, w1) \<Rightarrow> Some (Uncaught e, w1)
                | Some (Inr rc, w1) \<Rightarrow> Some (Exit rc, w1))"
    by (auto simp: get_or_def)
  from c(1) have "cfg = \<lparr>general = \<lparr>prewarm_workspaces_cfg = [1], poll_interval_ms = - 5,
      default_timeout_s = 20\<rparr>, apps = []\<rparr>"
    by (simp add: load_config_def load_general_def get_or_def)
  with c show ?thesis by (simp add: eval_simps)
qed

text \<open>
  The claim as first stated says that a poll interval \<open>\<le> 0\<close> aborts the run before any
  action.  With \<open>poll_interval_ms = 0\<close> the run is not aborted: the prewarm command is
  issued and the process exits with status 0.
\<close>

theorem poll_zero_accepted_counterexample:
  "main re_fragment ''config.toml''
     (Toml \<lparr>d_general = Some \<lparr>g_prewarm_workspaces = Some [1], g_poll_interval_ms = Some 0,
                               g_default_timeout_s = None\<rparr>,
            d_app = None\<rparr>)
     False \<lparr>now = 0, pending = [], trace = []\<rparr>
   = Some (Exit 0,
       \<lparr>now = 0, pending = [],
        trace = [Run (''hyprctl --batch '' @ [CHR 0x27] @ ''dispatch workspace 1'' @ [CHR 0x27])]\<rparr>)"
  by (simp add: main_def load_config_def load_general_def get_or_def eval_simps)

subsection \<open>C10: a matching window with a falsy address\<close>




end
